theory Spec2Isabelle
  imports Complex_Main "HOL-Library.Sublist" "HOL-Library.Product_Lexorder" "HOL-Library.Multiset"
begin

section \<open>Tier assignment: \<^verbatim>\<open>static/js/lib/tiers.js\<close>\<close>

text \<open>
  The values \<^verbatim>\<open>getValue\<close> returns are JavaScript numbers: a finite number (given by its
  exact value), one of the two infinities, or \<open>NaN\<close>. \<open>NaN\<close> also stands for a value that
  converts to it, such as the \<^verbatim>\<open>undefined\<close> read from a missing field: the only use
  \<^verbatim>\<open>assignTiers\<close> makes of a value is the subtraction in its comparator.
\<close>

datatype number = Finite rat | PosInf | NegInf | NaN

text \<open>
  The subtraction \<open>x - y\<close> of two numbers. For finite operands the sign of the result is the
  sign of the exact difference, which is all the sort reads of it.
\<close>

fun minus_number :: "number \<Rightarrow> number \<Rightarrow> number" where
  "minus_number NaN y = NaN"
| "minus_number x NaN = NaN"
| "minus_number (Finite x) (Finite y) = Finite (x - y)"
| "minus_number (Finite x) PosInf = NegInf"
| "minus_number (Finite x) NegInf = PosInf"
| "minus_number PosInf PosInf = NaN"
| "minus_number PosInf y = PosInf"
| "minus_number NegInf NegInf = NaN"
| "minus_number NegInf y = NegInf"


text \<open>
  A faction as \<^verbatim>\<open>assignTiers\<close> sees it: the field \<^verbatim>\<open>count\<close> (the faction's player
  count) that the function reads itself, and a metric the caller's \<^verbatim>\<open>getValue\<close> may read
  (the tests pass \<^verbatim>\<open>f => f.win_rate\<close>); the functions below accept any record that extends
  this one, so a value function may read any further field.
\<close>

record faction_entry =
  count :: nat
  win_rate :: number

text \<open>
  The objects \<^verbatim>\<open>{ idx: i, val: getValue(f), count: f.count }\<close> built by the first
  \<^verbatim>\<open>map\<close>; the field \<^verbatim>\<open>count\<close> of the item is named \<open>item_count\<close> here, as the
  faction's field already has the name.
\<close>

record item =
  idx :: nat
  val :: number
  item_count :: nat

definition TIER_CUTS :: "rat list" where
  "TIER_CUTS = [0.15, 0.40, 0.70, 0.90]"

subsection \<open>\<^verbatim>\<open>Array.prototype.sort\<close>\<close>

text \<open>
  The sort is a builtin of the JavaScript engine, not code of the repository, so
  \<^verbatim>\<open>assignTiers\<close> takes it as a parameter \<open>array_sort\<close>: a function from a comparator and an
  array to the array after the call. What ECMAScript (2019 and later) says of it is written
  down below and used as a hypothesis.

  \<open>sort_compare\<close> is how the sort reads its comparator (\<^verbatim>\<open>SortCompare\<close>): a result of
  \<open>NaN\<close> counts as \<open>+0\<close>, and otherwise only the sign matters. A negative result puts the
  first argument in front, a positive one the second.
\<close>

definition sort_compare :: "('a \<Rightarrow> 'a \<Rightarrow> number) \<Rightarrow> 'a \<Rightarrow> 'a \<Rightarrow> int" where
  "sort_compare comparefn x y =
     (case comparefn x y of
        NaN \<Rightarrow> 0
      | Finite v \<Rightarrow> (if v < 0 then - 1 else if 0 < v then 1 else 0)
      | PosInf \<Rightarrow> 1
      | NegInf \<Rightarrow> - 1)"

text \<open>
  A comparator is consistent for the values of a set when, read through \<open>sort_compare\<close>,
  equality is reflexive, symmetric and transitive and both strict orders are transitive
  (the conditions of the standard, section \<^verbatim>\<open>Array.prototype.sort\<close>).
\<close>

definition consistent :: "('a \<Rightarrow> 'a \<Rightarrow> number) \<Rightarrow> 'a set \<Rightarrow> bool" where
  "consistent comparefn S \<longleftrightarrow>
     (\<forall>a \<in> S. sort_compare comparefn a a = 0) \<and>
     (\<forall>a \<in> S. \<forall>b \<in> S. sort_compare comparefn a b = 0 \<longrightarrow> sort_compare comparefn b a = 0) \<and>
     (\<forall>a \<in> S. \<forall>b \<in> S. \<forall>c \<in> S.
        sort_compare comparefn a b = 0 \<and> sort_compare comparefn b c = 0 \<longrightarrow>
        sort_compare comparefn a c = 0) \<and>
     (\<forall>a \<in> S. \<forall>b \<in> S. \<forall>c \<in> S.
        sort_compare comparefn a b < 0 \<and> sort_compare comparefn b c < 0 \<longrightarrow>
        sort_compare comparefn a c < 0) \<and>
     (\<forall>a \<in> S. \<forall>b \<in> S. \<forall>c \<in> S.
        sort_compare comparefn a b > 0 \<and> sort_compare comparefn b c > 0 \<longrightarrow>
        sort_compare comparefn a c > 0)"

text \<open>
  The array holds the same elements after the call as before: an engine sorts by moving
  the elements, whatever the comparator answers.
\<close>

definition rearranges :: "(('a \<Rightarrow> 'a \<Rightarrow> number) \<Rightarrow> 'a list \<Rightarrow> 'a list) \<Rightarrow> bool" where
  "rearranges array_sort \<longleftrightarrow> (\<forall>comparefn xs. mset (array_sort comparefn xs) = mset xs)"



text \<open>
  One engine that meets the standard (shown below): binary insertion, the method engines
  such as V8 use on short arrays. Each element in turn is the pivot; a binary search over the
  part already sorted finds its place, going left only when the comparator puts the pivot
  strictly before the middle element.
\<close>

function binary_search :: "('a \<Rightarrow> 'a \<Rightarrow> number) \<Rightarrow> 'a \<Rightarrow> 'a list \<Rightarrow> nat \<Rightarrow> nat \<Rightarrow> nat" where
  "binary_search comparefn pivot ys left right =
     (if left < right then
        (let mid = left + (right - left) div 2
         in if sort_compare comparefn pivot (ys ! mid) < 0
            then binary_search comparefn pivot ys left mid
            else binary_search comparefn pivot ys (mid + 1) right)
      else left)"
  by pat_completeness auto
termination
  by (relation "measure (\<lambda>(comparefn, pivot, ys, left, right). right - left)") auto

declare binary_search.simps [simp del]

definition binary_insert :: "('a \<Rightarrow> 'a \<Rightarrow> number) \<Rightarrow> 'a \<Rightarrow> 'a list \<Rightarrow> 'a list" where
  "binary_insert comparefn pivot ys =
     (let k = binary_search comparefn pivot ys 0 (length ys)
      in take k ys @ [pivot] @ drop k ys)"

definition binary_insertion_sort :: "('a \<Rightarrow> 'a \<Rightarrow> number) \<Rightarrow> 'a list \<Rightarrow> 'a list" where
  "binary_insertion_sort comparefn xs = fold (binary_insert comparefn) xs []"

text \<open>
  Another one (shown below as well): insertion from the back, where each element moves right
  past the elements that the comparator puts strictly before it. On a comparator that is not
  consistent the two engines can order an array differently.
\<close>

fun insert_by :: "('a \<Rightarrow> 'a \<Rightarrow> number) \<Rightarrow> 'a \<Rightarrow> 'a list \<Rightarrow> 'a list" where
  "insert_by comparefn a [] = [a]"
| "insert_by comparefn a (b # bs) =
     (if sort_compare comparefn a b \<le> 0 then a # b # bs else b # insert_by comparefn a bs)"

definition insertion_sort :: "('a \<Rightarrow> 'a \<Rightarrow> number) \<Rightarrow> 'a list \<Rightarrow> 'a list" where
  "insertion_sort comparefn xs = foldr (insert_by comparefn) xs []"

subsection \<open>\<^verbatim>\<open>assignTiers\<close>\<close>

text \<open>\<^verbatim>\<open>var items = factions.map(function(f, i) { ... })\<close>\<close>

definition items :: "'a faction_entry_scheme list \<Rightarrow> ('a faction_entry_scheme \<Rightarrow> number) \<Rightarrow> item list" where
  "items factions getValue =
     map (\<lambda>(f, i). \<lparr>idx = i, val = getValue f, item_count = count f\<rparr>)
         (zip factions [0..<length factions])"

text \<open>
  The array \<^verbatim>\<open>qualifying\<close> after the filter and the in-place sort with the comparator
  \<^verbatim>\<open>function(a, b) { return b.val - a.val; }\<close>.
\<close>

definition qualifying ::
    "((item \<Rightarrow> item \<Rightarrow> number) \<Rightarrow> item list \<Rightarrow> item list) \<Rightarrow>
     'a faction_entry_scheme list \<Rightarrow> ('a faction_entry_scheme \<Rightarrow> number) \<Rightarrow> item list" where
  "qualifying array_sort factions getValue =
     array_sort (\<lambda>a b. minus_number (val b) (val a))
       (filter (\<lambda>it. item_count it \<ge> 3) (items factions getValue))"

text \<open>\<^verbatim>\<open>var pct = n > 1 ? r / (n - 1) : 0\<close>\<close>

definition pct :: "nat \<Rightarrow> nat \<Rightarrow> rat" where
  "pct n r = (if n > 1 then of_nat r / of_nat (n - 1) else 0)"

text \<open>The chain of comparisons with \<^verbatim>\<open>TIER_CUTS\<close> in the body of the first loop.\<close>

definition tier :: "rat \<Rightarrow> nat" where
  "tier p =
     (if p \<le> TIER_CUTS ! 0 then 0
      else if p \<le> TIER_CUTS ! 1 then 1
      else if p \<le> TIER_CUTS ! 2 then 2
      else if p \<le> TIER_CUTS ! 3 then 3
      else 4)"

text \<open>
  The object \<^verbatim>\<open>tiers\<close> is a map from indices to tier numbers (0 is S, 4 is D); a key
  that was never written is \<^verbatim>\<open>undefined\<close>, here \<open>None\<close>. The two \<^verbatim>\<open>for\<close> loops are
  folds over their index ranges.
\<close>

definition assignTiers ::
    "((item \<Rightarrow> item \<Rightarrow> number) \<Rightarrow> item list \<Rightarrow> item list) \<Rightarrow>
     'a faction_entry_scheme list \<Rightarrow> ('a faction_entry_scheme \<Rightarrow> number) \<Rightarrow> (nat \<rightharpoonup> nat)" where
  "assignTiers array_sort factions getValue =
     (let its = items factions getValue;
          q = qualifying array_sort factions getValue;
          n = length q;
          tiers = fold (\<lambda>r tiers. tiers(idx (q ! r) \<mapsto> tier (pct n r))) [0..<n] Map.empty
      in fold (\<lambda>j tiers. if tiers j = None then tiers(j \<mapsto> 4) else tiers) [0..<length its] tiers)"

text \<open>
  The ranking as positions of the input: \<open>ranking array_sort fs g ! r\<close> is
  \<^verbatim>\<open>qualifying[r].idx\<close>, the index of the faction ranked \<open>r\<close>.
\<close>

definition ranking ::
    "((item \<Rightarrow> item \<Rightarrow> number) \<Rightarrow> item list \<Rightarrow> item list) \<Rightarrow>
     'a faction_entry_scheme list \<Rightarrow> ('a faction_entry_scheme \<Rightarrow> number) \<Rightarrow> nat list" where
  "ranking array_sort factions getValue = map idx (qualifying array_sort factions getValue)"

text \<open>
  The position of a number other than \<open>NaN\<close> in the descending order, as a key of a linear
  order (pairs are ordered lexicographically); it serves the proofs only.
\<close>

fun descending_key :: "number \<Rightarrow> int \<times> rat" where
  "descending_key PosInf = (- 1, 0)"
| "descending_key (Finite x) = (0, - x)"
| "descending_key NegInf = (1, 0)"
| "descending_key NaN = (2, 0)"

section \<open>Epoch resolution: \<^verbatim>\<open>get_epoch_for_date\<close> in \<^verbatim>\<open>docs/02_data_model.md\<close>\<close>

text \<open>
  A significant event marks an epoch boundary; \<open>date\<close> is the day the epoch it starts
  begins. \<^verbatim>\<open>NaiveDate\<close> is any linearly ordered type of calendar days (the examples use
  triples of year, month and day, ordered lexicographically).
\<close>

record 'd SignificantEvent =
  event_type :: string
  date :: 'd
  title :: string

text \<open>
  Rust's \<^verbatim>\<open>Iterator::max_by_key\<close>: \<open>None\<close> on an empty iterator; otherwise the
  elements are reduced from the left, and the accumulated element is kept only when its key
  is strictly greater than the next one's, so that of several maximal elements the last one
  is returned.
\<close>

definition max_by_key :: "('a \<Rightarrow> 'k::linorder) \<Rightarrow> 'a list \<Rightarrow> 'a option" where
  "max_by_key f xs =
     (case xs of
        [] \<Rightarrow> None
      | x # rest \<Rightarrow> Some (fold (\<lambda>y acc. if f y < f acc then acc else y) rest x))"

text \<open>\<^verbatim>\<open>Option::unwrap_or\<close>\<close>

definition unwrap_or :: "'a option \<Rightarrow> 'a \<Rightarrow> 'a" where
  "unwrap_or opt dflt = (case opt of Some v \<Rightarrow> v | None \<Rightarrow> dflt)"

text \<open>
  The function of the document. The constant \<^verbatim>\<open>PRE_TRACKING_EPOCH_ID\<close> and the helper
  \<^verbatim>\<open>epoch_id_from_event\<close> are not given there; they are parameters here.
\<close>

definition get_epoch_for_date ::
    "'i \<Rightarrow> ('d::linorder SignificantEvent \<Rightarrow> 'i) \<Rightarrow> 'd \<Rightarrow> 'd SignificantEvent list \<Rightarrow> 'i" where
  "get_epoch_for_date PRE_TRACKING_EPOCH_ID epoch_id_from_event d events =
     unwrap_or
       (map_option epoch_id_from_event
          (max_by_key date (filter (\<lambda>e. date e \<le> d) events)))
       PRE_TRACKING_EPOCH_ID"

section \<open>Derived metrics\<close>

text \<open>
  Modelled from the spec: the derived metrics calculator is not among the sources (the data
  model document only gives the formula \<^verbatim>\<open>(top_4 / total_top_4) / meta_share\<close>). Section 4.4
  of the specification: \<^verbatim>\<open>meta_share = player_count / total_players_across_all_factions_in_range\<close>.
  Ratios are fractions, here rationals.
\<close>

definition meta_share :: "nat \<Rightarrow> nat \<Rightarrow> rat" where
  "meta_share player_count total_players = of_nat player_count / of_nat total_players"

text \<open>
  Modelled from the spec: the derived metrics calculator is not among the sources. Section 4.4:
  \<^verbatim>\<open>over_representation = (top4 / total_top4_across_all_factions) / meta_share\<close>; null if
  \<^verbatim>\<open>meta_share == 0\<close> or \<^verbatim>\<open>total_top4 == 0\<close>. Null is \<open>None\<close>.
\<close>

definition over_representation :: "nat \<Rightarrow> nat \<Rightarrow> rat \<Rightarrow> rat option" where
  "over_representation top4 total_top4 ms =
     (if ms = 0 \<or> total_top4 = 0 then None
      else Some ((of_nat top4 / of_nat total_top4) / ms))"

section \<open>Faction aggregation\<close>

text \<open>
  Modelled from the spec: the faction aggregator is not among the sources. The records below
  follow section 3 of the specification: a placement's win/loss/draw record (nullable, here an
  option), the placement record itself, and the counters kept per faction. The counters'
  sums of wins, losses and draws are named \<open>total_wins\<close>, \<open>total_losses\<close> and
  \<open>total_draws\<close>, the nullable \<^verbatim>\<open>record\<close> of a placement is the field \<open>game_record\<close>, and
  the distinct event ids behind \<^verbatim>\<open>event_appearances\<close> are kept as a list.
\<close>

record game_record =
  wins :: nat
  losses :: nat
  draws :: nat

record PlacementRecord =
  event_id :: string
  epoch_id :: string
  rank :: int
  faction :: string
  game_record :: "game_record option"
  needs_review :: bool

record FactionCounters =
  player_count :: nat
  games_played :: nat
  total_wins :: nat
  total_losses :: nat
  total_draws :: nat
  first :: nat
  top4 :: nat
  top10 :: nat
  top_half :: nat
  four_zero_count :: nat
  five_zero_count :: nat
  event_ids :: "string list"

text \<open>
  Modelled from the spec: section 3, \<^verbatim>\<open>event_appearances\<close> is the count of distinct event ids
  among the faction's placements.
\<close>

definition event_appearances :: "FactionCounters \<Rightarrow> nat" where
  "event_appearances c = length (event_ids c)"

text \<open>
  Modelled from the spec: the counters of a faction before its first placement is added, every
  count being a sum over placements.
\<close>

definition no_counters :: FactionCounters where
  "no_counters =
     \<lparr>player_count = 0, games_played = 0, total_wins = 0, total_losses = 0, total_draws = 0,
      first = 0, top4 = 0, top10 = 0, top_half = 0, four_zero_count = 0, five_zero_count = 0,
      event_ids = []\<rparr>"

text \<open>
  Modelled from the spec: section 4.2, "Per record". A perfect start is detected only when
  \<^verbatim>\<open>record.losses == 0 and record.draws == 0 and record.wins\<close> is exactly 4 or exactly 5.
\<close>

definition is_four_zero :: "PlacementRecord \<Rightarrow> bool" where
  "is_four_zero p =
     (case game_record p of
        None \<Rightarrow> False
      | Some r \<Rightarrow> losses r = 0 \<and> draws r = 0 \<and> wins r = 4)"

text \<open>
  Modelled from the spec: section 4.2, "Per record", the same detection for exactly 5 wins.
\<close>

definition is_five_zero :: "PlacementRecord \<Rightarrow> bool" where
  "is_five_zero p =
     (case game_record p of
        None \<Rightarrow> False
      | Some r \<Rightarrow> losses r = 0 \<and> draws r = 0 \<and> wins r = 5)"

text \<open>
  Modelled from the spec: section 4.2, "Per record" and "Missing record data": the player
  count and the placement buckets are updated for every placement, the game sums only when
  the record is present. \<open>event_players\<close> gives an event's total player count.
\<close>

definition add_placement ::
    "(string \<Rightarrow> nat) \<Rightarrow> PlacementRecord \<Rightarrow> FactionCounters \<Rightarrow> FactionCounters" where
  "add_placement event_players p c =
     (let c1 = c\<lparr>player_count := player_count c + 1\<rparr>;
          c2 = (case game_record p of
                  None \<Rightarrow> c1
                | Some r \<Rightarrow>
                    c1\<lparr>total_wins := total_wins c1 + wins r,
                       total_losses := total_losses c1 + losses r,
                       total_draws := total_draws c1 + draws r,
                       games_played := games_played c1 + (wins r + losses r + draws r)\<rparr>);
          c3 = c2\<lparr>first := first c2 + (if rank p = 1 then 1 else 0),
                  top4 := top4 c2 + (if rank p \<le> 4 then 1 else 0),
                  top10 := top10 c2 + (if rank p \<le> 10 then 1 else 0),
                  top_half := top_half c2 +
                    (if (of_int (rank p) :: rat) \<le> of_nat (event_players (event_id p)) / 2
                     then 1 else 0)\<rparr>;
          c4 = c3\<lparr>four_zero_count := four_zero_count c3 + (if is_four_zero p then 1 else 0),
                  five_zero_count := five_zero_count c3 + (if is_five_zero p then 1 else 0)\<rparr>
      in c4\<lparr>event_ids := (if event_id p \<in> set (event_ids c4) then event_ids c4
                           else event_ids c4 @ [event_id p])\<rparr>)"

text \<open>
  Modelled from the spec: section 7, \<^verbatim>\<open>InvalidRecord\<close>: a placement with a non-positive rank
  or an empty faction name is excluded from aggregation.
\<close>

definition valid_record :: "PlacementRecord \<Rightarrow> bool" where
  "valid_record p = (0 < rank p \<and> faction p \<noteq> [])"

text \<open>
  Modelled from the spec: section 4.2, "Filtering": the date range is inclusive and may be
  unbounded on either side (an absent bound is \<open>None\<close>).
\<close>

definition in_range :: "'d::linorder option \<times> 'd option \<Rightarrow> 'd \<Rightarrow> bool" where
  "in_range date_range d =
     ((case fst date_range of None \<Rightarrow> True | Some lo \<Rightarrow> lo \<le> d) \<and>
      (case snd date_range of None \<Rightarrow> True | Some hi \<Rightarrow> d \<le> hi))"

text \<open>
  Modelled from the spec: section 4.2, "Filtering", and section 7: a record is aggregated when
  it is valid, its epoch matches and the date of its owning event lies in the range; records
  that need review are included unless the caller's switch \<open>exclude_review\<close> is set.
\<close>

definition included ::
    "bool \<Rightarrow> (string \<Rightarrow> 'd::linorder) \<Rightarrow> string \<Rightarrow> 'd option \<times> 'd option \<Rightarrow> PlacementRecord \<Rightarrow> bool" where
  "included exclude_review event_date epoch date_range p =
     (valid_record p \<and> epoch_id p = epoch \<and> in_range date_range (event_date (event_id p)) \<and>
      \<not> (exclude_review \<and> needs_review p))"

text \<open>
  Modelled from the spec: section 4.2, the contract
  \<^verbatim>\<open>aggregate(records, epoch_id, date_range) -> mapping faction -> FactionCounters\<close>, as the
  fold over the included records that section 9 asks for.
\<close>

definition aggregate ::
    "bool \<Rightarrow> (string \<Rightarrow> 'd::linorder) \<Rightarrow> (string \<Rightarrow> nat) \<Rightarrow> PlacementRecord list \<Rightarrow> string \<Rightarrow>
     'd option \<times> 'd option \<Rightarrow> (string \<rightharpoonup> FactionCounters)" where
  "aggregate exclude_review event_date event_players records epoch date_range =
     fold (\<lambda>p m. m(faction p \<mapsto>
                    add_placement event_players p
                      (case m (faction p) of None \<Rightarrow> no_counters | Some c \<Rightarrow> c)))
          (filter (included exclude_review event_date epoch date_range) records)
          Map.empty"

section \<open>API client: \<^verbatim>\<open>static/js/lib/api.js\<close>\<close>

text \<open>
  A JavaScript string is a sequence of UTF-16 code units, here natural numbers; \<open>str\<close>
  gives the code units of an ASCII literal.
\<close>

type_synonym js_string = "nat list"

definition str :: "string \<Rightarrow> js_string" where
  "str s = map of_char s"

text \<open>
  What can be thrown: the \<^verbatim>\<open>Error\<close> the client creates with its message, the
  \<^verbatim>\<open>URIError\<close> of \<^verbatim>\<open>encodeURIComponent\<close>, the \<^verbatim>\<open>SyntaxError\<close> of a body that is not
  JSON, and the \<^verbatim>\<open>TypeError\<close> of a failed request. A rejected promise is \<open>Inl\<close> of the
  error, a fulfilled one \<open>Inr\<close> of its value.
\<close>

datatype js_error = Error js_string | URIError | SyntaxError | TypeError

text \<open>
  What a method uses of the response: the flag \<^verbatim>\<open>ok\<close>, the HTTP \<^verbatim>\<open>status\<close>, and the
  outcome of the call \<^verbatim>\<open>res.json()\<close>, which is the parsed body or a rejection.
\<close>

record 'j Response =
  ok :: bool
  status :: nat
  json :: "js_error + 'j"

text \<open>A number appended to a string: its decimal digits.\<close>

fun string_of_nat :: "nat \<Rightarrow> js_string" where
  "string_of_nat n =
     (if n < 10 then [48 + n]
      else string_of_nat (n div 10) @ [48 + n mod 10])"

declare string_of_nat.simps [simp del]

text \<open>
  \<^verbatim>\<open>page || 1\<close>: an argument left out (\<open>None\<close>) or zero gives the default.
\<close>

definition or_default :: "nat option \<Rightarrow> nat \<Rightarrow> nat" where
  "or_default v d = (case v of None \<Rightarrow> d | Some n \<Rightarrow> if n = 0 then d else n)"

text \<open>
  Truthiness of an optional string argument: \<^verbatim>\<open>undefined\<close>, \<^verbatim>\<open>null\<close> and the empty
  string are falsy.
\<close>

definition truthy :: "js_string option \<Rightarrow> bool" where
  "truthy s = (case s of None \<Rightarrow> False | Some v \<Rightarrow> v \<noteq> [])"

text \<open>
  The builtin \<^verbatim>\<open>encodeURIComponent\<close>, as the standard defines it: letters, digits and the
  marks \<^verbatim>\<open>- _ . ! ~ * ' ( )\<close> are kept; any other code point is written as the octets of its
  UTF-8 encoding, each as \<^verbatim>\<open>%XX\<close>; a surrogate code unit that is not part of a pair throws
  a \<^verbatim>\<open>URIError\<close>.
\<close>

definition unreserved :: "nat \<Rightarrow> bool" where
  "unreserved c \<longleftrightarrow>
     (65 \<le> c \<and> c \<le> 90) \<or> (97 \<le> c \<and> c \<le> 122) \<or> (48 \<le> c \<and> c \<le> 57) \<or>
     c \<in> set (str ''-_.!~*()'') \<or> c = 39"

definition percent :: "nat \<Rightarrow> js_string" where
  "percent octet =
     [37, str ''0123456789ABCDEF'' ! (octet div 16), str ''0123456789ABCDEF'' ! (octet mod 16)]"

definition utf8 :: "nat \<Rightarrow> nat list" where
  "utf8 cp =
     (if cp < 128 then [cp]
      else if cp < 2048 then [192 + cp div 64, 128 + cp mod 64]
      else if cp < 65536 then [224 + cp div 4096, 128 + (cp div 64) mod 64, 128 + cp mod 64]
      else [240 + cp div 262144, 128 + (cp div 4096) mod 64, 128 + (cp div 64) mod 64,
            128 + cp mod 64])"

definition leading_surrogate :: "nat \<Rightarrow> bool" where
  "leading_surrogate c \<longleftrightarrow> 55296 \<le> c \<and> c \<le> 56319"

definition trailing_surrogate :: "nat \<Rightarrow> bool" where
  "trailing_surrogate c \<longleftrightarrow> 56320 \<le> c \<and> c \<le> 57343"

definition escaped :: "nat \<Rightarrow> js_error + js_string \<Rightarrow> js_error + js_string" where
  "escaped cp rest =
     (case rest of Inl e \<Rightarrow> Inl e | Inr r \<Rightarrow> Inr (concat (map percent (utf8 cp)) @ r))"

fun encodeURIComponent :: "js_string \<Rightarrow> js_error + js_string" where
  "encodeURIComponent [] = Inr []"
| "encodeURIComponent (c # rest) =
     (if unreserved c then
        (case encodeURIComponent rest of Inl e \<Rightarrow> Inl e | Inr r \<Rightarrow> Inr (c # r))
      else if trailing_surrogate c then Inl URIError
      else if leading_surrogate c then
        (case rest of
           [] \<Rightarrow> Inl URIError
         | d # rest' \<Rightarrow>
             if trailing_surrogate d
             then escaped ((c - 55296) * 1024 + (d - 56320) + 65536) (encodeURIComponent rest')
             else Inl URIError)
      else escaped c (encodeURIComponent rest))"

text \<open>
  The URL each method passes to \<^verbatim>\<open>_fetch\<close>, or the error thrown while it is put
  together.
\<close>

definition getEvents_url ::
    "nat option \<Rightarrow> nat option \<Rightarrow> js_string option \<Rightarrow> js_string option \<Rightarrow> js_string option \<Rightarrow>
     bool \<Rightarrow> js_error + js_string" where
  "getEvents_url page pageSize epoch from to hasResults =
     (let params = str ''page='' @ string_of_nat (or_default page 1) @
                   str ''&page_size='' @ string_of_nat (or_default pageSize 20)
      in case (if truthy epoch \<and> epoch \<noteq> Some (str ''current'')
               then (case encodeURIComponent (the epoch) of
                       Inl e \<Rightarrow> Inl e
                     | Inr enc \<Rightarrow> Inr (params @ str ''&epoch='' @ enc))
               else Inr params) of
           Inl e \<Rightarrow> Inl e
         | Inr params \<Rightarrow>
             (let params = (if truthy from then params @ str ''&from='' @ the from else params);
                  params = (if truthy to then params @ str ''&to='' @ the to else params);
                  params = (if hasResults then params @ str ''&has_results=true'' else params)
              in Inr (str ''/api/events?'' @ params)))"

definition getEvent_url :: "js_string \<Rightarrow> js_string option \<Rightarrow> js_error + js_string" where
  "getEvent_url ident epoch =
     (case (if truthy epoch \<and> epoch \<noteq> Some (str ''current'')
            then (case encodeURIComponent (the epoch) of
                    Inl e \<Rightarrow> Inl e
                  | Inr enc \<Rightarrow> Inr (str ''?epoch='' @ enc))
            else Inr []) of
        Inl e \<Rightarrow> Inl e
      | Inr params \<Rightarrow> Inr (str ''/api/events/'' @ ident @ params))"

text \<open>\<^verbatim>\<open>parts.join('&')\<close>\<close>

fun join :: "js_string \<Rightarrow> js_string list \<Rightarrow> js_string" where
  "join sep [] = []"
| "join sep [p] = p"
| "join sep (p # ps) = p @ sep @ join sep ps"

definition getFactionStats_url ::
    "js_string option \<Rightarrow> js_string option \<Rightarrow> js_string option \<Rightarrow> js_error + js_string" where
  "getFactionStats_url epoch from to =
     (case (if truthy epoch \<and> epoch \<noteq> Some (str ''current'')
            then (case encodeURIComponent (the epoch) of
                    Inl e \<Rightarrow> Inl e
                  | Inr enc \<Rightarrow> Inr [str ''epoch='' @ enc])
            else Inr []) of
        Inl e \<Rightarrow> Inl e
      | Inr parts \<Rightarrow>
          (let parts = (if truthy from then parts @ [str ''from='' @ the from] else parts);
               parts = (if truthy to then parts @ [str ''to='' @ the to] else parts);
               params = (if length parts > 0 then str ''?'' @ join (str ''&'') parts else [])
           in Inr (str ''/api/meta/factions'' @ params)))"

definition getEpochs_url :: js_string where
  "getEpochs_url = str ''/api/epochs''"

text \<open>
  The four methods of the object \<^verbatim>\<open>createApi\<close> returns, each with \<open>fetch\<close> (the function
  \<^verbatim>\<open>_fetch\<close>) as its first argument. An error thrown while the URL is put together and a
  rejection of the awaited \<^verbatim>\<open>_fetch\<close> are thrown on; a response that is not \<^verbatim>\<open>ok\<close>
  throws the \<^verbatim>\<open>Error\<close> with the status; otherwise the promise \<^verbatim>\<open>res.json()\<close> is
  returned, so that its outcome is the outcome of the method.
\<close>

definition getEvents ::
    "(js_string \<Rightarrow> js_error + 'j Response) \<Rightarrow> nat option \<Rightarrow> nat option \<Rightarrow> js_string option \<Rightarrow>
     js_string option \<Rightarrow> js_string option \<Rightarrow> bool \<Rightarrow> js_error + 'j" where
  "getEvents fetch page pageSize epoch from to hasResults =
     (case getEvents_url page pageSize epoch from to hasResults of
        Inl e \<Rightarrow> Inl e
      | Inr url \<Rightarrow>
          (case fetch url of
             Inl e \<Rightarrow> Inl e
           | Inr res \<Rightarrow>
               if \<not> ok res
               then Inl (Error (str ''Events API error: '' @ string_of_nat (status res)))
               else json res))"

definition getEvent ::
    "(js_string \<Rightarrow> js_error + 'j Response) \<Rightarrow> js_string \<Rightarrow> js_string option \<Rightarrow> js_error + 'j" where
  "getEvent fetch ident epoch =
     (case getEvent_url ident epoch of
        Inl e \<Rightarrow> Inl e
      | Inr url \<Rightarrow>
          (case fetch url of
             Inl e \<Rightarrow> Inl e
           | Inr res \<Rightarrow>
               if \<not> ok res
               then Inl (Error (str ''Event API error: '' @ string_of_nat (status res)))
               else json res))"

definition getFactionStats ::
    "(js_string \<Rightarrow> js_error + 'j Response) \<Rightarrow> js_string option \<Rightarrow> js_string option \<Rightarrow>
     js_string option \<Rightarrow> js_error + 'j" where
  "getFactionStats fetch epoch from to =
     (case getFactionStats_url epoch from to of
        Inl e \<Rightarrow> Inl e
      | Inr url \<Rightarrow>
          (case fetch url of
             Inl e \<Rightarrow> Inl e
           | Inr res \<Rightarrow>
               if \<not> ok res
               then Inl (Error (str ''Meta API error: '' @ string_of_nat (status res)))
               else json res))"

definition getEpochs :: "(js_string \<Rightarrow> js_error + 'j Response) \<Rightarrow> js_error + 'j" where
  "getEpochs fetch =
     (case fetch getEpochs_url of
        Inl e \<Rightarrow> Inl e
      | Inr res \<Rightarrow>
          if \<not> ok res
          then Inl (Error (str ''Epochs API error: '' @ string_of_nat (status res)))
          else json res)"

text \<open>
  The fetch function of the tests, \<^verbatim>\<open>vi.fn().mockResolvedValue(res)\<close>: every request
  completes with the response \<open>res\<close>.
\<close>

definition mockResolvedValue :: "'r \<Rightarrow> js_string \<Rightarrow> js_error + 'r" where
  "mockResolvedValue res url = Inr res"

text \<open>The number a string of decimal digits denotes; it serves to state what the digits are.\<close>

definition decimal_value :: "js_string \<Rightarrow> nat" where
  "decimal_value ds = foldl (\<lambda>a d. 10 * a + (d - 48)) 0 ds"

section \<open>Engines that meet the standard\<close>

subsection \<open>Consequences of consistency\<close>






lemma consistent_subset: "consistent c S \<Longrightarrow> T \<subseteq> S \<Longrightarrow> consistent c T"
  unfolding consistent_def by blast








subsection \<open>Binary insertion\<close>

lemma mset_binary_insert: "mset (binary_insert c p ys) = add_mset p (mset ys)"
proof -
  have "mset (take k ys) + mset (drop k ys) = mset ys" for k
    by (metis append_take_drop_id mset_append)
  then show ?thesis
    by (simp add: binary_insert_def Let_def)
qed

lemma mset_fold_binary_insert: "mset (fold (binary_insert c) xs ys) = mset ys + mset xs"
  by (induction xs arbitrary: ys) (simp_all add: mset_binary_insert)

lemma rearranges_binary_insertion_sort: "rearranges binary_insertion_sort"
  by (simp add: rearranges_def binary_insertion_sort_def mset_fold_binary_insert)








subsection \<open>Insertion from the back\<close>

lemma mset_insert_by: "mset (insert_by c a bs) = add_mset a (mset bs)"
  by (induction bs) simp_all

lemma mset_insertion_sort: "mset (insertion_sort c xs) = mset xs"
  by (induction xs) (simp_all add: insertion_sort_def mset_insert_by)

lemma rearranges_insertion_sort: "rearranges insertion_sort"
  by (simp add: rearranges_def mset_insertion_sort)







section \<open>Properties of the tier assignment\<close>

subsection \<open>The items and the ranking\<close>

lemma length_items: "length (items fs g) = length fs"
  by (simp add: items_def)

lemma nth_items:
  "i < length fs \<Longrightarrow> items fs g ! i = \<lparr>idx = i, val = g (fs ! i), item_count = count (fs ! i)\<rparr>"
  by (simp add: items_def)

lemma map_idx_items: "map idx (items fs g) = [0..<length fs]"
  by (rule nth_equalityI) (simp_all add: length_items nth_items)


lemma mset_qualifying:
  assumes "rearranges srt"
  shows "mset (qualifying srt fs g) = mset (filter (\<lambda>it. 3 \<le> item_count it) (items fs g))"
  using assms by (simp add: qualifying_def rearranges_def)

lemma set_qualifying:
  assumes "rearranges srt"
  shows "set (qualifying srt fs g) = {it \<in> set (items fs g). 3 \<le> item_count it}"
  using mset_eq_setD [OF mset_qualifying [OF assms, of fs g]] by simp

lemma distinct_ranking:
  assumes "rearranges srt"
  shows "distinct (ranking srt fs g)"
proof -
  have "distinct (map idx (items fs g))"
    by (simp add: map_idx_items)
  then have "distinct (map idx (filter (\<lambda>it. 3 \<le> item_count it) (items fs g)))"
    by (rule distinct_map_filter)
  moreover have "mset (map idx (qualifying srt fs g)) =
                 mset (map idx (filter (\<lambda>it. 3 \<le> item_count it) (items fs g)))"
    using mset_qualifying [OF assms, of fs g] by (metis mset_map)
  ultimately show ?thesis
    unfolding ranking_def by (metis mset_eq_imp_distinct_iff)
qed

lemma set_ranking:
  assumes "rearranges srt"
  shows "set (ranking srt fs g) = {i. i < length fs \<and> 3 \<le> count (fs ! i)}"
proof -
  have "set (ranking srt fs g) = idx ` {it \<in> set (items fs g). 3 \<le> item_count it}"
    by (simp add: ranking_def set_qualifying [OF assms])
  also have "\<dots> = {i. i < length fs \<and> 3 \<le> count (fs ! i)}"
  proof (intro set_eqI iffI)
    fix i assume "i \<in> idx ` {it \<in> set (items fs g). 3 \<le> item_count it}"
    then obtain it where it: "it \<in> set (items fs g)" "3 \<le> item_count it" "i = idx it"
      by auto
    then obtain k where k: "k < length fs" "it = items fs g ! k"
      by (metis in_set_conv_nth length_items)
    with it show "i \<in> {i. i < length fs \<and> 3 \<le> count (fs ! i)}"
      by (simp add: nth_items)
  next
    fix i assume "i \<in> {i. i < length fs \<and> 3 \<le> count (fs ! i)}"
    then have i: "i < length fs" "3 \<le> count (fs ! i)" by simp_all
    have "items fs g ! i \<in> set (items fs g)"
      using i by (simp add: length_items)
    moreover have "idx (items fs g ! i) = i" "3 \<le> item_count (items fs g ! i)"
      using i by (simp_all add: nth_items)
    ultimately have "items fs g ! i \<in> {it \<in> set (items fs g). 3 \<le> item_count it}"
      "idx (items fs g ! i) = i" by simp_all
    then show "i \<in> idx ` {it \<in> set (items fs g). 3 \<le> item_count it}"
      by force
  qed
  finally show ?thesis .
qed

lemma length_ranking: "length (ranking srt fs g) = length (qualifying srt fs g)"
  by (simp add: ranking_def)


subsection \<open>The two loops\<close>

lemma rank_loop_hit:
  assumes "distinct (map idx q)" "m \<le> length q" "r < m"
  shows "fold (\<lambda>r tiers. tiers(idx (q ! r) \<mapsto> F r)) [0..<m] Map.empty (idx (q ! r)) = Some (F r)"
  using assms(2,3)
proof (induction m)
  case 0
  then show ?case by simp
next
  case (Suc m)
  show ?case
  proof (cases "r = m")
    case True
    then show ?thesis by simp
  next
    case False
    with Suc.prems have r: "r < m" "m < length q" by simp_all
    with assms(1) have "idx (q ! r) \<noteq> idx (q ! m)"
      by (simp add: distinct_conv_nth)
    with Suc.IH r show ?thesis by simp
  qed
qed

lemma rank_loop_miss:
  assumes "\<forall>r<m. idx (q ! r) \<noteq> k"
  shows "fold (\<lambda>r tiers. tiers(idx (q ! r) \<mapsto> F r)) [0..<m] Map.empty k = None"
  using assms by (induction m) auto

lemma fill_loop:
  "fold (\<lambda>j tiers. if tiers j = None then tiers(j \<mapsto> d) else tiers) [0..<L] t k =
     (if k < L \<and> t k = None then Some d else t k)"
  by (induction L) (auto simp: less_Suc_eq)

lemma assignTiers_ranked:
  assumes "rearranges srt" "r < length (ranking srt fs g)"
  shows "assignTiers srt fs g (ranking srt fs g ! r) =
           Some (tier (pct (length (ranking srt fs g)) r))"
proof -
  let ?q = "qualifying srt fs g"
  have d: "distinct (map idx ?q)"
    using distinct_ranking [OF assms(1), of fs g] by (simp add: ranking_def)
  from assms(2) have r: "r < length ?q" by (simp add: length_ranking)
  have "fold (\<lambda>r tiers. tiers(idx (?q ! r) \<mapsto> tier (pct (length ?q) r))) [0..<length ?q] Map.empty
          (idx (?q ! r)) = Some (tier (pct (length ?q) r))"
    using d _ r by (rule rank_loop_hit) simp
  with r show ?thesis
    by (simp add: assignTiers_def Let_def fill_loop ranking_def)
qed

lemma assignTiers_unranked:
  assumes "j < length fs" "j \<notin> set (ranking srt fs g)"
  shows "assignTiers srt fs g j = Some 4"
proof -
  let ?q = "qualifying srt fs g"
  from assms(2) have "\<forall>r<length ?q. idx (?q ! r) \<noteq> j"
    by (auto simp: ranking_def)
  then have "fold (\<lambda>r tiers. tiers(idx (?q ! r) \<mapsto> tier (pct (length ?q) r))) [0..<length ?q] Map.empty j = None"
    by (rule rank_loop_miss)
  with assms(1) show ?thesis
    by (simp add: assignTiers_def Let_def fill_loop length_items)
qed

lemma assignTiers_outside:
  assumes "rearranges srt" "length fs \<le> j"
  shows "assignTiers srt fs g j = None"
proof -
  let ?q = "qualifying srt fs g"
  from assms(2) have "j \<notin> set (ranking srt fs g)"
    by (simp add: set_ranking [OF assms(1)])
  then have "\<forall>r<length ?q. idx (?q ! r) \<noteq> j"
    by (auto simp: ranking_def)
  then have "fold (\<lambda>r tiers. tiers(idx (?q ! r) \<mapsto> tier (pct (length ?q) r))) [0..<length ?q] Map.empty j = None"
    by (rule rank_loop_miss)
  with assms(2) show ?thesis
    by (simp add: assignTiers_def Let_def fill_loop length_items)
qed

lemma tier_le_4: "tier p \<le> 4"
  by (simp add: tier_def)


subsection \<open>The comparator on values other than \<open>NaN\<close>\<close>

lemma descending_key_eq_iff: "descending_key x = descending_key y \<longleftrightarrow> x = y"
  by (cases x; cases y) simp_all










subsection \<open>The claims about \<^verbatim>\<open>assignTiers\<close>\<close>




text \<open>
  Claim C2. On every engine whose sort returns the elements it was given, and for every
  value function: every faction whose count is below 3 gets tier D (4), and the factions that
  take part in the percentile ranking are exactly those with a count of at least 3.
\<close>

theorem assignTiers_small_sample:
  assumes "rearranges srt"
  shows
  "(\<forall>i < length fs. count (fs ! i) < 3 \<longrightarrow> assignTiers srt fs g i = Some 4) \<and>
   set (ranking srt fs g) = {i. i < length fs \<and> 3 \<le> count (fs ! i)}"
proof (intro conjI allI impI)
  fix i assume "i < length fs" "count (fs ! i) < 3"
  then have "i \<notin> set (ranking srt fs g)"
    by (simp add: set_ranking [OF assms])
  with \<open>i < length fs\<close> show "assignTiers srt fs g i = Some 4"
    by (rule assignTiers_unranked)
next
  show "set (ranking srt fs g) = {i. i < length fs \<and> 3 \<le> count (fs ! i)}"
    by (rule set_ranking [OF assms])
qed

theorem assignTiers_small_sample_witness:
  "count ([\<lparr>count = 2, win_rate = Finite 0.60\<rparr>, \<lparr>count = 10, win_rate = Finite 0.50\<rparr>] ! 0) < 3 \<and>
   assignTiers binary_insertion_sort
     [\<lparr>count = 2, win_rate = Finite 0.60\<rparr>, \<lparr>count = 10, win_rate = Finite 0.50\<rparr>] win_rate 0 = Some 4 \<and>
   count ([\<lparr>count = 2, win_rate = NaN\<rparr>, \<lparr>count = 10, win_rate = NaN\<rparr>] ! 0) < 3 \<and>
   assignTiers insertion_sort
     [\<lparr>count = 2, win_rate = NaN\<rparr>, \<lparr>count = 10, win_rate = NaN\<rparr>] win_rate 0 = Some 4"
proof -
  let ?fs = "[\<lparr>count = 2, win_rate = Finite 0.60\<rparr>, \<lparr>count = 10, win_rate = Finite 0.50\<rparr>]"
  let ?gs = "[\<lparr>count = 2, win_rate = NaN\<rparr>, \<lparr>count = 10, win_rate = NaN\<rparr>]"
  from assignTiers_small_sample [OF rearranges_binary_insertion_sort, of ?fs win_rate]
  have a: "\<forall>i < length ?fs. count (?fs ! i) < 3 \<longrightarrow>
             assignTiers binary_insertion_sort ?fs win_rate i = Some 4"
    by blast
  from assignTiers_small_sample [OF rearranges_insertion_sort, of ?gs win_rate]
  have b: "\<forall>i < length ?gs. count (?gs ! i) < 3 \<longrightarrow>
             assignTiers insertion_sort ?gs win_rate i = Some 4"
    by blast
  from a [rule_format, of 0] b [rule_format, of 0] show ?thesis
    by simp
qed




text \<open>
  Claim C9. On every engine whose sort returns the elements it was given, and for every
  input: the mapping returned by \<open>assignTiers\<close> gives every index of the input a tier, each
  one of the numbers 0 (S) to 4 (D), and it has no other keys.
\<close>

theorem assignTiers_total:
  assumes "rearranges srt"
  shows
  "(\<forall>i < length fs. \<exists>t. assignTiers srt fs g i = Some t \<and> t \<le> 4) \<and>
   dom (assignTiers srt fs g) = {i. i < length fs}"
proof -
  have def: "\<exists>t. assignTiers srt fs g i = Some t \<and> t \<le> 4" if "i < length fs" for i
  proof (cases "i \<in> set (ranking srt fs g)")
    case True
    then obtain r where "r < length (ranking srt fs g)" "ranking srt fs g ! r = i"
      by (auto simp: in_set_conv_nth)
    then have "assignTiers srt fs g i = Some (tier (pct (length (ranking srt fs g)) r))"
      using assignTiers_ranked [OF assms, of r fs g] by simp
    then show ?thesis by (simp add: tier_le_4)
  next
    case False
    with that have "assignTiers srt fs g i = Some 4" by (rule assignTiers_unranked)
    then show ?thesis by simp
  qed
  have "dom (assignTiers srt fs g) = {i. i < length fs}"
  proof (intro set_eqI iffI)
    fix i assume "i \<in> dom (assignTiers srt fs g)"
    then show "i \<in> {i. i < length fs}"
      using assignTiers_outside [OF assms, of fs i g] by (cases "i < length fs") auto
  next
    fix i assume "i \<in> {i. i < length fs}"
    then show "i \<in> dom (assignTiers srt fs g)"
      using def [of i] by auto
  qed
  with def show ?thesis by blast
qed

theorem assignTiers_total_witness:
  "(1::nat) < length [\<lparr>count = 2, win_rate = Finite 0.60\<rparr>, \<lparr>count = 10, win_rate = NaN\<rparr>] \<and>
   assignTiers binary_insertion_sort
     [\<lparr>count = 2, win_rate = Finite 0.60\<rparr>, \<lparr>count = 10, win_rate = NaN\<rparr>] win_rate 1 \<noteq> None \<and>
   dom (assignTiers binary_insertion_sort
     [\<lparr>count = 2, win_rate = Finite 0.60\<rparr>, \<lparr>count = 10, win_rate = NaN\<rparr>] win_rate) = {0, 1}"
proof -
  let ?fs = "[\<lparr>count = 2, win_rate = Finite 0.60\<rparr>, \<lparr>count = 10, win_rate = NaN\<rparr>]"
  from assignTiers_total [OF rearranges_binary_insertion_sort, of ?fs win_rate]
  have all: "\<forall>i < length ?fs. \<exists>t. assignTiers binary_insertion_sort ?fs win_rate i = Some t \<and> t \<le> 4"
    and d: "dom (assignTiers binary_insertion_sort ?fs win_rate) = {i. i < length ?fs}"
    by blast+
  have "{i. i < length ?fs} = {0, 1}" by auto
  with all [rule_format, of 1] d show ?thesis
    by auto
qed




section \<open>Properties of epoch resolution\<close>

lemma fold_max_key:
  fixes f :: "'a \<Rightarrow> 'k::linorder"
  shows "fold (\<lambda>y acc. if f y < f acc then acc else y) rest x \<in> set (x # rest) \<and>
   (\<forall>y \<in> set (x # rest). f y \<le> f (fold (\<lambda>y acc. if f y < f acc then acc else y) rest x))"
proof (induction rest arbitrary: x)
  case Nil
  show ?case by simp
next
  case (Cons z rest)
  let ?x' = "if f z < f x then x else z"
  from Cons.IH [of ?x'] have IH:
    "fold (\<lambda>y acc. if f y < f acc then acc else y) rest ?x' \<in> set (?x' # rest)"
    "\<forall>y \<in> set (?x' # rest). f y \<le> f (fold (\<lambda>y acc. if f y < f acc then acc else y) rest ?x')"
    by blast+
  have fx: "f x \<le> f ?x'" and fz: "f z \<le> f ?x'" by auto
  from IH(2) have top: "f ?x' \<le> f (fold (\<lambda>y acc. if f y < f acc then acc else y) rest ?x')"
    by simp
  show ?case
  proof (intro conjI ballI)
    from IH(1) show "fold (\<lambda>y acc. if f y < f acc then acc else y) (z # rest) x \<in> set (x # z # rest)"
      by (auto split: if_splits)
  next
    fix y assume "y \<in> set (x # z # rest)"
    then consider "y = x" | "y = z" | "y \<in> set rest" by auto
    then show "f y \<le> f (fold (\<lambda>y acc. if f y < f acc then acc else y) (z # rest) x)"
    proof cases
      case 1
      with fx top show ?thesis by (auto split: if_splits)
    next
      case 2
      with fz top show ?thesis by (auto split: if_splits)
    next
      case 3
      with IH(2) show ?thesis by simp
    qed
  qed
qed

lemma max_by_key_None: "max_by_key f xs = None \<longleftrightarrow> xs = []"
  by (simp add: max_by_key_def split: list.splits)

lemma max_by_key_Some:
  fixes f :: "'a \<Rightarrow> 'k::linorder"
  assumes "max_by_key f xs = Some m"
  shows "m \<in> set xs \<and> (\<forall>y \<in> set xs. f y \<le> f m)"
proof (cases xs)
  case Nil
  with assms show ?thesis by (simp add: max_by_key_def)
next
  case (Cons x rest)
  with assms have "m = fold (\<lambda>y acc. if f y < f acc then acc else y) rest x"
    by (simp add: max_by_key_def)
  with fold_max_key [of f rest x] Cons show ?thesis by simp
qed

text \<open>
  Claim C5. For every date and every list of boundaries, \<open>get_epoch_for_date\<close> returns the
  sentinel when no boundary starts on or before the date, in particular for the empty list;
  otherwise it returns the id of a boundary that starts on or before the date and whose start
  date is the greatest among all such boundaries. The function is total: no input makes it
  fail.
\<close>

theorem get_epoch_for_date_latest:
  fixes d :: "'d::linorder"
  shows
  "((\<forall>e \<in> set events. \<not> date e \<le> d) \<longrightarrow>
      get_epoch_for_date PRE_TRACKING epoch_id_from_event d events = PRE_TRACKING) \<and>
   ((\<exists>e \<in> set events. date e \<le> d) \<longrightarrow>
      (\<exists>e \<in> set events. date e \<le> d \<and>
         (\<forall>e' \<in> set events. date e' \<le> d \<longrightarrow> date e' \<le> date e) \<and>
         get_epoch_for_date PRE_TRACKING epoch_id_from_event d events = epoch_id_from_event e)) \<and>
   get_epoch_for_date PRE_TRACKING epoch_id_from_event d [] = PRE_TRACKING"
proof (intro conjI impI)
  assume "\<forall>e \<in> set events. \<not> date e \<le> d"
  then have "filter (\<lambda>e. date e \<le> d) events = []"
    by (simp add: filter_empty_conv)
  then show "get_epoch_for_date PRE_TRACKING epoch_id_from_event d events = PRE_TRACKING"
    by (simp add: get_epoch_for_date_def max_by_key_def unwrap_or_def)
next
  assume "\<exists>e \<in> set events. date e \<le> d"
  then have "filter (\<lambda>e. date e \<le> d) events \<noteq> []"
    by (simp add: filter_empty_conv)
  then obtain m where m: "max_by_key date (filter (\<lambda>e. date e \<le> d) events) = Some m"
    using max_by_key_None [of date "filter (\<lambda>e. date e \<le> d) events"] by auto
  from max_by_key_Some [OF m]
  have "m \<in> set events" "date m \<le> d" "\<forall>e' \<in> set events. date e' \<le> d \<longrightarrow> date e' \<le> date m"
    by auto
  moreover from m have "get_epoch_for_date PRE_TRACKING epoch_id_from_event d events = epoch_id_from_event m"
    by (simp add: get_epoch_for_date_def unwrap_or_def)
  ultimately show "\<exists>e \<in> set events. date e \<le> d \<and>
         (\<forall>e' \<in> set events. date e' \<le> d \<longrightarrow> date e' \<le> date e) \<and>
         get_epoch_for_date PRE_TRACKING epoch_id_from_event d events = epoch_id_from_event e"
    by blast
next
  show "get_epoch_for_date PRE_TRACKING epoch_id_from_event d [] = PRE_TRACKING"
    by (simp add: get_epoch_for_date_def max_by_key_def unwrap_or_def)
qed

theorem get_epoch_for_date_latest_witness:
  "\<not> (2025::nat, 6::nat, 15::nat) \<le> (2025, 1, 1) \<and>
   get_epoch_for_date ''pre_tracking'' title (2025::nat, 1::nat, 1::nat)
     [\<lparr>event_type = ''balance_update'', date = (2025, 6, 15), title = ''e1''\<rparr>] = ''pre_tracking'' \<and>
   (2025::nat, 6::nat, 15::nat) \<le> (2025, 7, 12) \<and>
   get_epoch_for_date ''pre_tracking'' title (2025::nat, 7::nat, 12::nat)
     [\<lparr>event_type = ''balance_update'', date = (2025, 6, 15), title = ''e1''\<rparr>] = ''e1''"
proof -
  let ?evs = "[\<lparr>event_type = ''balance_update'', date = (2025::nat, 6::nat, 15::nat), title = ''e1''\<rparr>]"
  have early: "\<forall>e \<in> set ?evs. \<not> date e \<le> (2025, 1, 1)" by simp
  have late: "\<exists>e \<in> set ?evs. date e \<le> (2025, 7, 12)" by simp
  from get_epoch_for_date_latest [of ?evs "(2025, 1, 1)" "''pre_tracking''" title] early
  have a: "get_epoch_for_date ''pre_tracking'' title (2025, 1, 1) ?evs = ''pre_tracking''"
    by blast
  from get_epoch_for_date_latest [of ?evs "(2025, 7, 12)" "''pre_tracking''" title] late
  have "\<exists>e \<in> set ?evs. get_epoch_for_date ''pre_tracking'' title (2025, 7, 12) ?evs = title e"
    by blast
  then have b: "get_epoch_for_date ''pre_tracking'' title (2025, 7, 12) ?evs = ''e1''"
    by simp
  from a b show ?thesis by simp
qed

text \<open>
  Claim C6. Epoch resolution is monotonic: when an earlier and a later date both resolve to a
  boundary of the list (neither falls back to the sentinel), the boundary of the later date
  starts on or after the boundary of the earlier date. This holds for every list of boundaries,
  so in particular for the non-overlapping, contiguous ones.
\<close>

theorem get_epoch_for_date_monotonic:
  fixes d1 :: "'d::linorder"
  assumes "d1 < d2"
    and "max_by_key date (filter (\<lambda>e. date e \<le> d1) events) = Some e1"
    and "max_by_key date (filter (\<lambda>e. date e \<le> d2) events) = Some e2"
  shows "date e1 \<le> date e2 \<and>
         get_epoch_for_date PRE_TRACKING epoch_id_from_event d1 events = epoch_id_from_event e1 \<and>
         get_epoch_for_date PRE_TRACKING epoch_id_from_event d2 events = epoch_id_from_event e2"
proof -
  from max_by_key_Some [OF assms(2)] have e1: "e1 \<in> set events" "date e1 \<le> d1"
    by auto
  with assms(1) have "e1 \<in> set (filter (\<lambda>e. date e \<le> d2) events)"
    by auto
  with max_by_key_Some [OF assms(3)] have "date e1 \<le> date e2"
    by blast
  with assms(2,3) show ?thesis
    by (simp add: get_epoch_for_date_def unwrap_or_def)
qed

theorem get_epoch_for_date_monotonic_witness:
  "(2025::nat, 4::nat, 1::nat) < (2025, 7, 12) \<and>
   get_epoch_for_date ''pre_tracking'' title (2025::nat, 4::nat, 1::nat)
     [\<lparr>event_type = ''balance_update'', date = (2025, 6, 15), title = ''e1''\<rparr>,
      \<lparr>event_type = ''edition_release'', date = (2025, 3, 15), title = ''e0''\<rparr>] = ''e0'' \<and>
   get_epoch_for_date ''pre_tracking'' title (2025::nat, 7::nat, 12::nat)
     [\<lparr>event_type = ''balance_update'', date = (2025, 6, 15), title = ''e1''\<rparr>,
      \<lparr>event_type = ''edition_release'', date = (2025, 3, 15), title = ''e0''\<rparr>] = ''e1''"
proof -
  let ?e1 = "\<lparr>event_type = ''balance_update'', date = (2025::nat, 6::nat, 15::nat), title = ''e1''\<rparr>"
  let ?e0 = "\<lparr>event_type = ''edition_release'', date = (2025::nat, 3::nat, 15::nat), title = ''e0''\<rparr>"
  have lt: "(2025::nat, 4::nat, 1::nat) < (2025, 7, 12)" by simp
  have s1: "max_by_key date (filter (\<lambda>e. date e \<le> (2025, 4, 1)) [?e1, ?e0]) = Some ?e0"
    by (simp add: max_by_key_def)
  have s2: "max_by_key date (filter (\<lambda>e. date e \<le> (2025, 7, 12)) [?e1, ?e0]) = Some ?e1"
    by (simp add: max_by_key_def)
  from get_epoch_for_date_monotonic [OF lt s1 s2, of "''pre_tracking''" title] lt
  show ?thesis by simp
qed


section \<open>Properties of the derived metrics\<close>

lemma meta_share_nonneg: "0 \<le> meta_share n_players total_players"
  by (simp add: meta_share_def)

text \<open>
  Claim C7. For a faction in a range that holds at least one player: the over-representation
  is null when the meta share is 0; when neither the meta share nor the total of top-4
  finishes is 0 it is \<open>(top4 / total_top4) / meta_share\<close>; and when the meta share is not 0, it
  is a value above 1 exactly when the faction's share of the top-4 slots (defined when there
  are such slots) exceeds its share of the players.
\<close>

theorem over_representation_above_one:
  assumes "0 < total_players"
  shows
  "(meta_share n_players total_players = 0 \<longrightarrow>
      over_representation n_top4 total_top4 (meta_share n_players total_players) = None) \<and>
   (meta_share n_players total_players \<noteq> 0 \<and> total_top4 \<noteq> 0 \<longrightarrow>
      over_representation n_top4 total_top4 (meta_share n_players total_players) =
        Some ((of_nat n_top4 / of_nat total_top4) / meta_share n_players total_players)) \<and>
   (meta_share n_players total_players \<noteq> 0 \<longrightarrow>
      ((\<exists>v. over_representation n_top4 total_top4 (meta_share n_players total_players) = Some v \<and>
            1 < v) \<longleftrightarrow>
       (total_top4 \<noteq> 0 \<and>
        meta_share n_players total_players < of_nat n_top4 / of_nat total_top4)))"
proof (intro conjI impI)
  assume "meta_share n_players total_players = 0"
  then show "over_representation n_top4 total_top4 (meta_share n_players total_players) = None"
    by (simp add: over_representation_def)
next
  assume "meta_share n_players total_players \<noteq> 0 \<and> total_top4 \<noteq> 0"
  then show "over_representation n_top4 total_top4 (meta_share n_players total_players) =
        Some ((of_nat n_top4 / of_nat total_top4) / meta_share n_players total_players)"
    by (simp add: over_representation_def)
next
  assume "meta_share n_players total_players \<noteq> 0"
  with meta_share_nonneg [of n_players total_players]
  have pos: "0 < meta_share n_players total_players"
    by simp
  show "(\<exists>v. over_representation n_top4 total_top4 (meta_share n_players total_players) = Some v \<and>
            1 < v) \<longleftrightarrow>
       (total_top4 \<noteq> 0 \<and>
        meta_share n_players total_players < of_nat n_top4 / of_nat total_top4)"
  proof (cases "total_top4 = 0")
    case True
    then show ?thesis by (simp add: over_representation_def)
  next
    case False
    let ?ms = "meta_share n_players total_players"
    let ?share = "of_nat n_top4 / of_nat total_top4 :: rat"
    from False pos have "over_representation n_top4 total_top4 ?ms = Some (?share / ?ms)"
      by (simp add: over_representation_def)
    moreover from pos have "1 < ?share / ?ms \<longleftrightarrow> ?ms < ?share"
      by (rule less_divide_eq_1_pos)
    ultimately show ?thesis
      using False by auto
  qed
qed

theorem over_representation_above_one_witness:
  "(0::nat) < 1000 \<and> meta_share 126 1000 \<noteq> 0 \<and>
   over_representation 38 236 (meta_share 126 1000) = Some (9500 / 7434) \<and>
   meta_share 126 1000 < of_nat 38 / of_nat 236 \<and>
   meta_share 0 1000 = 0 \<and> over_representation 38 236 (meta_share 0 1000) = None"
proof -
  have tp: "(0::nat) < 1000" by simp
  have ms: "meta_share 126 1000 \<noteq> 0" "meta_share 0 1000 = 0"
    by (simp_all add: meta_share_def)
  from over_representation_above_one [OF tp, of 126 38 236] ms(1)
  have "over_representation 38 236 (meta_share 126 1000) =
          Some ((of_nat 38 / of_nat 236) / meta_share 126 1000)"
    by simp
  then have a: "over_representation 38 236 (meta_share 126 1000) = Some (9500 / 7434)"
    by (simp add: meta_share_def)
  from over_representation_above_one [OF tp, of 0 38 236] ms(2)
  have b: "over_representation 38 236 (meta_share 0 1000) = None"
    by simp
  have c: "meta_share 126 1000 < of_nat 38 / of_nat 236"
    by (simp add: meta_share_def)
  from tp ms a b c show ?thesis by blast
qed

section \<open>Properties of the aggregation\<close>

lemma is_four_zero_iff:
  "is_four_zero p \<longleftrightarrow> (\<exists>r. game_record p = Some r \<and> losses r = 0 \<and> draws r = 0 \<and> wins r = 4)"
  by (simp add: is_four_zero_def split: option.splits)

lemma is_five_zero_iff:
  "is_five_zero p \<longleftrightarrow> (\<exists>r. game_record p = Some r \<and> losses r = 0 \<and> draws r = 0 \<and> wins r = 5)"
  by (simp add: is_five_zero_def split: option.splits)

lemma four_zero_count_add_placement:
  "four_zero_count (add_placement event_players p c) =
     four_zero_count c + (if is_four_zero p then 1 else 0)"
  by (simp add: add_placement_def Let_def split: option.splits)

lemma five_zero_count_add_placement:
  "five_zero_count (add_placement event_players p c) =
     five_zero_count c + (if is_five_zero p then 1 else 0)"
  by (simp add: add_placement_def Let_def split: option.splits)

text \<open>
  A counter read off the map, 0 for a faction that has no entry, grows along the fold by the
  number of records of the faction that the detector accepts.
\<close>

lemma fold_counts:
  fixes sel :: "FactionCounters \<Rightarrow> nat" and hit :: "PlacementRecord \<Rightarrow> bool"
  assumes step: "\<And>p c. sel (add_placement event_players p c) = sel c + (if hit p then 1 else 0)"
    and zero: "sel no_counters = 0"
  shows "(case fold (\<lambda>p m. m(faction p \<mapsto>
                    add_placement event_players p
                      (case m (faction p) of None \<Rightarrow> no_counters | Some c \<Rightarrow> c))) ps m f of
            None \<Rightarrow> 0 | Some c \<Rightarrow> sel c) =
         (case m f of None \<Rightarrow> 0 | Some c \<Rightarrow> sel c) +
         length (filter (\<lambda>p. faction p = f \<and> hit p) ps)"
proof (induction ps arbitrary: m)
  case Nil
  show ?case by simp
next
  case (Cons p ps)
  let ?m' = "m(faction p \<mapsto>
               add_placement event_players p
                 (case m (faction p) of None \<Rightarrow> no_counters | Some c \<Rightarrow> c))"
  have "(case ?m' f of None \<Rightarrow> 0 | Some c \<Rightarrow> sel c) =
        (case m f of None \<Rightarrow> 0 | Some c \<Rightarrow> sel c) + (if faction p = f \<and> hit p then 1 else 0)"
    by (simp add: step zero split: option.splits)
  with Cons.IH [of ?m'] show ?case
    by simp
qed

text \<open>
  Claim C8. A placement adds one to the 4-0 count exactly when its record is present with no
  losses, no draws and exactly 4 wins, and one to the 5-0 count exactly when it is present
  with no losses, no draws and exactly 5 wins. So a record of 5 wins, 0 losses and 0 draws
  raises the 5-0 count and leaves the 4-0 count, and a record of 6 wins, 0 losses and 0 draws
  leaves both. In the result of an aggregation, a faction's two counts are the numbers of its
  included records of these two kinds.
\<close>

theorem perfect_start_counts:
  "four_zero_count (add_placement event_players p c) =
     four_zero_count c +
       (if \<exists>r. game_record p = Some r \<and> losses r = 0 \<and> draws r = 0 \<and> wins r = 4 then 1 else 0) \<and>
   five_zero_count (add_placement event_players p c) =
     five_zero_count c +
       (if \<exists>r. game_record p = Some r \<and> losses r = 0 \<and> draws r = 0 \<and> wins r = 5 then 1 else 0) \<and>
   four_zero_count (add_placement event_players
       (p\<lparr>game_record := Some \<lparr>wins = 5, losses = 0, draws = 0\<rparr>\<rparr>) c) = four_zero_count c \<and>
   five_zero_count (add_placement event_players
       (p\<lparr>game_record := Some \<lparr>wins = 5, losses = 0, draws = 0\<rparr>\<rparr>) c) = five_zero_count c + 1 \<and>
   four_zero_count (add_placement event_players
       (p\<lparr>game_record := Some \<lparr>wins = 6, losses = 0, draws = 0\<rparr>\<rparr>) c) = four_zero_count c \<and>
   five_zero_count (add_placement event_players
       (p\<lparr>game_record := Some \<lparr>wins = 6, losses = 0, draws = 0\<rparr>\<rparr>) c) = five_zero_count c \<and>
   (case aggregate exclude_review event_date event_players records epoch date_range f of
      None \<Rightarrow> 0 | Some c \<Rightarrow> four_zero_count c) =
     length (filter
       (\<lambda>p. faction p = f \<and>
            (\<exists>r. game_record p = Some r \<and> losses r = 0 \<and> draws r = 0 \<and> wins r = 4))
       (filter (included exclude_review event_date epoch date_range) records)) \<and>
   (case aggregate exclude_review event_date event_players records epoch date_range f of
      None \<Rightarrow> 0 | Some c \<Rightarrow> five_zero_count c) =
     length (filter
       (\<lambda>p. faction p = f \<and>
            (\<exists>r. game_record p = Some r \<and> losses r = 0 \<and> draws r = 0 \<and> wins r = 5))
       (filter (included exclude_review event_date epoch date_range) records))"
proof (intro conjI)
  show "four_zero_count (add_placement event_players p c) =
     four_zero_count c +
       (if \<exists>r. game_record p = Some r \<and> losses r = 0 \<and> draws r = 0 \<and> wins r = 4 then 1 else 0)"
    by (simp only: four_zero_count_add_placement is_four_zero_iff)
  show "five_zero_count (add_placement event_players p c) =
     five_zero_count c +
       (if \<exists>r. game_record p = Some r \<and> losses r = 0 \<and> draws r = 0 \<and> wins r = 5 then 1 else 0)"
    by (simp only: five_zero_count_add_placement is_five_zero_iff)
  show "four_zero_count (add_placement event_players
       (p\<lparr>game_record := Some \<lparr>wins = 5, losses = 0, draws = 0\<rparr>\<rparr>) c) = four_zero_count c"
    by (simp add: four_zero_count_add_placement is_four_zero_def)
  show "five_zero_count (add_placement event_players
       (p\<lparr>game_record := Some \<lparr>wins = 5, losses = 0, draws = 0\<rparr>\<rparr>) c) = five_zero_count c + 1"
    by (simp add: five_zero_count_add_placement is_five_zero_def)
  show "four_zero_count (add_placement event_players
       (p\<lparr>game_record := Some \<lparr>wins = 6, losses = 0, draws = 0\<rparr>\<rparr>) c) = four_zero_count c"
    by (simp add: four_zero_count_add_placement is_four_zero_def)
  show "five_zero_count (add_placement event_players
       (p\<lparr>game_record := Some \<lparr>wins = 6, losses = 0, draws = 0\<rparr>\<rparr>) c) = five_zero_count c"
    by (simp add: five_zero_count_add_placement is_five_zero_def)
  show "(case aggregate exclude_review event_date event_players records epoch date_range f of
      None \<Rightarrow> 0 | Some c \<Rightarrow> four_zero_count c) =
     length (filter
       (\<lambda>p. faction p = f \<and>
            (\<exists>r. game_record p = Some r \<and> losses r = 0 \<and> draws r = 0 \<and> wins r = 4))
       (filter (included exclude_review event_date epoch date_range) records))"
    unfolding aggregate_def is_four_zero_iff [symmetric]
    by (subst fold_counts [where sel = four_zero_count and hit = is_four_zero])
       (simp_all add: four_zero_count_add_placement no_counters_def)
  show "(case aggregate exclude_review event_date event_players records epoch date_range f of
      None \<Rightarrow> 0 | Some c \<Rightarrow> five_zero_count c) =
     length (filter
       (\<lambda>p. faction p = f \<and>
            (\<exists>r. game_record p = Some r \<and> losses r = 0 \<and> draws r = 0 \<and> wins r = 5))
       (filter (included exclude_review event_date epoch date_range) records))"
    unfolding aggregate_def is_five_zero_iff [symmetric]
    by (subst fold_counts [where sel = five_zero_count and hit = is_five_zero])
       (simp_all add: five_zero_count_add_placement no_counters_def)
qed

theorem perfect_start_counts_witness:
  "(case aggregate False (\<lambda>ev. (2025::nat, 7::nat, 12::nat)) (\<lambda>ev. 120)
      [\<lparr>event_id = ''ev'', epoch_id = ''e1'', rank = 1, faction = ''Aeldari'',
        game_record = Some \<lparr>wins = 5, losses = 0, draws = 0\<rparr>, needs_review = False\<rparr>,
       \<lparr>event_id = ''ev'', epoch_id = ''e1'', rank = 2, faction = ''Aeldari'',
        game_record = Some \<lparr>wins = 6, losses = 0, draws = 0\<rparr>, needs_review = False\<rparr>,
       \<lparr>event_id = ''ev'', epoch_id = ''e1'', rank = 3, faction = ''Aeldari'',
        game_record = Some \<lparr>wins = 4, losses = 1, draws = 0\<rparr>, needs_review = False\<rparr>]
      ''e1'' (Some (2025, 6, 15), None) ''Aeldari'' of
      None \<Rightarrow> 0 | Some c \<Rightarrow> four_zero_count c) = 0 \<and>
   (case aggregate False (\<lambda>ev. (2025::nat, 7::nat, 12::nat)) (\<lambda>ev. 120)
      [\<lparr>event_id = ''ev'', epoch_id = ''e1'', rank = 1, faction = ''Aeldari'',
        game_record = Some \<lparr>wins = 5, losses = 0, draws = 0\<rparr>, needs_review = False\<rparr>,
       \<lparr>event_id = ''ev'', epoch_id = ''e1'', rank = 2, faction = ''Aeldari'',
        game_record = Some \<lparr>wins = 6, losses = 0, draws = 0\<rparr>, needs_review = False\<rparr>,
       \<lparr>event_id = ''ev'', epoch_id = ''e1'', rank = 3, faction = ''Aeldari'',
        game_record = Some \<lparr>wins = 4, losses = 1, draws = 0\<rparr>, needs_review = False\<rparr>]
      ''e1'' (Some (2025, 6, 15), None) ''Aeldari'' of
      None \<Rightarrow> 0 | Some c \<Rightarrow> five_zero_count c) = 1"
proof -
  let ?rs = "[\<lparr>event_id = ''ev'', epoch_id = ''e1'', rank = 1, faction = ''Aeldari'',
        game_record = Some \<lparr>wins = 5, losses = 0, draws = 0\<rparr>, needs_review = False\<rparr>,
       \<lparr>event_id = ''ev'', epoch_id = ''e1'', rank = 2, faction = ''Aeldari'',
        game_record = Some \<lparr>wins = 6, losses = 0, draws = 0\<rparr>, needs_review = False\<rparr>,
       \<lparr>event_id = ''ev'', epoch_id = ''e1'', rank = 3, faction = ''Aeldari'',
        game_record = Some \<lparr>wins = 4, losses = 1, draws = 0\<rparr>, needs_review = False\<rparr>]"
  have inc: "filter (included False (\<lambda>ev. (2025::nat, 7::nat, 12::nat)) ''e1'' (Some (2025, 6, 15), None)) ?rs = ?rs"
    by (simp add: included_def valid_record_def in_range_def)
  from perfect_start_counts [of "\<lambda>ev. 120" _ _ False "\<lambda>ev. (2025::nat, 7::nat, 12::nat)" ?rs
        "''e1''" "(Some (2025, 6, 15), None)" "''Aeldari''"]
  show ?thesis
    unfolding inc by simp
qed


section \<open>Properties of the API client\<close>

lemma decimal_value_snoc: "decimal_value (ds @ [d]) = 10 * decimal_value ds + (d - 48)"
  by (simp add: decimal_value_def)

lemma decimal_value_string_of_nat: "decimal_value (string_of_nat n) = n"
proof (induction n rule: string_of_nat.induct)
  case (1 n)
  show ?case
  proof (cases "n < 10")
    case True
    then show ?thesis
      by (simp add: string_of_nat.simps [of n] decimal_value_def)
  next
    case False
    with "1.IH" show ?thesis
      by (simp add: string_of_nat.simps [of n] decimal_value_snoc)
  qed
qed

lemma digits_string_of_nat: "d \<in> set (string_of_nat n) \<Longrightarrow> 48 \<le> d \<and> d \<le> 57"
proof (induction n rule: string_of_nat.induct)
  case (1 n)
  show ?case
  proof (cases "n < 10")
    case True
    with "1.prems" show ?thesis
      by (simp add: string_of_nat.simps [of n])
  next
    case False
    have "n mod 10 < 10" by simp
    with False "1.prems" "1.IH" show ?thesis
      by (auto simp: string_of_nat.simps [of n])
  qed
qed

lemma string_of_nat_leading:
  "string_of_nat n \<noteq> [] \<and> (n \<noteq> 0 \<longrightarrow> hd (string_of_nat n) \<noteq> 48)"
proof (induction n rule: string_of_nat.induct)
  case (1 n)
  show ?case
  proof (cases "n < 10")
    case True
    then show ?thesis
      by (simp add: string_of_nat.simps [of n])
  next
    case False
    then have "n div 10 \<noteq> 0" by simp
    with False "1.IH" show ?thesis
      by (simp add: string_of_nat.simps [of n])
  qed
qed

text \<open>
  Claim C10, as stated, fails when the body of an \<^verbatim>\<open>ok\<close> response is not JSON: the promise
  \<^verbatim>\<open>res.json()\<close> that the method returns rejects, so the method throws although \<^verbatim>\<open>ok\<close>
  is true, the error carries no status, and no parsed body is returned.
\<close>

theorem api_methods_outcome_counterexample:
  "getEvents (mockResolvedValue \<lparr>ok = True, status = 200, json = Inl SyntaxError\<rparr>)
     None None None None None False = (Inl SyntaxError :: js_error + unit) \<and>
   getEvent (mockResolvedValue \<lparr>ok = True, status = 200, json = Inl SyntaxError\<rparr>)
     (str ''abc123'') None = (Inl SyntaxError :: js_error + unit) \<and>
   getFactionStats (mockResolvedValue \<lparr>ok = True, status = 200, json = Inl SyntaxError\<rparr>)
     None None None = (Inl SyntaxError :: js_error + unit) \<and>
   getEpochs (mockResolvedValue \<lparr>ok = True, status = 200, json = Inl SyntaxError\<rparr>)
     = (Inl SyntaxError :: js_error + unit)"
  by code_simp

text \<open>
  Claim C10, amended. For each of the four methods, once its URL is put together and the
  fetch of that URL has completed with the response \<open>res\<close>: when \<open>ok res\<close> is false the method
  throws the \<^verbatim>\<open>Error\<close> whose message is the method's label followed by the status, written
  in decimal digits without a leading zero; when \<open>ok res\<close> is true its outcome is that of \<^verbatim>\<open>res.json()\<close>, the parsed
  body or the rejection of that call. There is no other outcome.
\<close>

theorem api_methods_outcome:
  assumes "fetch u = Inr res"
  shows
  "(getEvents_url page pageSize epoch from to hasResults = Inr u \<longrightarrow>
      (\<not> ok res \<longrightarrow> getEvents fetch page pageSize epoch from to hasResults =
                       Inl (Error (str ''Events API error: '' @ string_of_nat (status res)))) \<and>
      (ok res \<longrightarrow> getEvents fetch page pageSize epoch from to hasResults = json res)) \<and>
   (getEvent_url ident epoch = Inr u \<longrightarrow>
      (\<not> ok res \<longrightarrow> getEvent fetch ident epoch =
                       Inl (Error (str ''Event API error: '' @ string_of_nat (status res)))) \<and>
      (ok res \<longrightarrow> getEvent fetch ident epoch = json res)) \<and>
   (getFactionStats_url epoch from to = Inr u \<longrightarrow>
      (\<not> ok res \<longrightarrow> getFactionStats fetch epoch from to =
                       Inl (Error (str ''Meta API error: '' @ string_of_nat (status res)))) \<and>
      (ok res \<longrightarrow> getFactionStats fetch epoch from to = json res)) \<and>
   (getEpochs_url = u \<longrightarrow>
      (\<not> ok res \<longrightarrow> getEpochs fetch =
                       Inl (Error (str ''Epochs API error: '' @ string_of_nat (status res)))) \<and>
      (ok res \<longrightarrow> getEpochs fetch = json res)) \<and>
   decimal_value (string_of_nat (status res)) = status res \<and>
   (\<forall>d \<in> set (string_of_nat (status res)). 48 \<le> d \<and> d \<le> 57) \<and>
   string_of_nat (status res) \<noteq> [] \<and>
   (status res \<noteq> 0 \<longrightarrow> hd (string_of_nat (status res)) \<noteq> 48)"
proof (intro conjI impI ballI)
  assume "getEvents_url page pageSize epoch from to hasResults = Inr u" "\<not> ok res"
  with assms show "getEvents fetch page pageSize epoch from to hasResults =
                     Inl (Error (str ''Events API error: '' @ string_of_nat (status res)))"
    by (simp add: getEvents_def)
next
  assume "getEvents_url page pageSize epoch from to hasResults = Inr u" "ok res"
  with assms show "getEvents fetch page pageSize epoch from to hasResults = json res"
    by (simp add: getEvents_def)
next
  assume "getEvent_url ident epoch = Inr u" "\<not> ok res"
  with assms show "getEvent fetch ident epoch =
                     Inl (Error (str ''Event API error: '' @ string_of_nat (status res)))"
    by (simp add: getEvent_def)
next
  assume "getEvent_url ident epoch = Inr u" "ok res"
  with assms show "getEvent fetch ident epoch = json res"
    by (simp add: getEvent_def)
next
  assume "getFactionStats_url epoch from to = Inr u" "\<not> ok res"
  with assms show "getFactionStats fetch epoch from to =
                     Inl (Error (str ''Meta API error: '' @ string_of_nat (status res)))"
    by (simp add: getFactionStats_def)
next
  assume "getFactionStats_url epoch from to = Inr u" "ok res"
  with assms show "getFactionStats fetch epoch from to = json res"
    by (simp add: getFactionStats_def)
next
  assume "getEpochs_url = u" "\<not> ok res"
  with assms show "getEpochs fetch =
                     Inl (Error (str ''Epochs API error: '' @ string_of_nat (status res)))"
    by (simp add: getEpochs_def)
next
  assume "getEpochs_url = u" "ok res"
  with assms show "getEpochs fetch = json res"
    by (simp add: getEpochs_def)
next
  show "decimal_value (string_of_nat (status res)) = status res"
    by (rule decimal_value_string_of_nat)
next
  fix d assume "d \<in> set (string_of_nat (status res))"
  then show "48 \<le> d" "d \<le> 57"
    using digits_string_of_nat by blast+
next
  show "string_of_nat (status res) \<noteq> []"
    using string_of_nat_leading by blast
next
  assume "status res \<noteq> 0"
  then show "hd (string_of_nat (status res)) \<noteq> 48"
    using string_of_nat_leading by blast
qed

theorem api_methods_outcome_witness:
  "getEvents (mockResolvedValue \<lparr>ok = False, status = 500, json = Inr ()\<rparr>) None None None None None False
     = Inl (Error (str ''Events API error: 500'')) \<and>
   getEvent (mockResolvedValue \<lparr>ok = False, status = 404, json = Inr ()\<rparr>) (str ''bad-id'') None
     = Inl (Error (str ''Event API error: 404'')) \<and>
   getEpochs (mockResolvedValue \<lparr>ok = False, status = 503, json = Inr ()\<rparr>)
     = Inl (Error (str ''Epochs API error: 503'')) \<and>
   getFactionStats (mockResolvedValue \<lparr>ok = True, status = 200, json = Inr (7::nat)\<rparr>) None None None
     = Inr 7"
proof -
  have d500: "string_of_nat 500 = str ''500''" and d404: "string_of_nat 404 = str ''404''"
    and d503: "string_of_nat 503 = str ''503''"
    by code_simp+
  have u1: "getEvents_url None None None None None False = Inr (str ''/api/events?page=1&page_size=20'')"
    by code_simp
  have u2: "getEvent_url (str ''bad-id'') None = Inr (str ''/api/events/bad-id'')"
    by code_simp
  have u3: "getFactionStats_url None None None = Inr (str ''/api/meta/factions'')"
    by code_simp
  let ?f1 = "mockResolvedValue \<lparr>ok = False, status = 500, json = Inr ()\<rparr>"
  let ?f2 = "mockResolvedValue \<lparr>ok = False, status = 404, json = Inr ()\<rparr>"
  let ?f3 = "mockResolvedValue \<lparr>ok = False, status = 503, json = Inr ()\<rparr>"
  let ?f4 = "mockResolvedValue \<lparr>ok = True, status = 200, json = Inr (7::nat)\<rparr>"
  have a: "getEvents ?f1 None None None None None False = Inl (Error (str ''Events API error: 500''))"
    using api_methods_outcome [of ?f1 "str ''/api/events?page=1&page_size=20''"
        "\<lparr>ok = False, status = 500, json = Inr ()\<rparr>" None None None None None False] u1 d500
    by (simp add: str_def mockResolvedValue_def)
  have b: "getEvent ?f2 (str ''bad-id'') None = Inl (Error (str ''Event API error: 404''))"
    using api_methods_outcome [of ?f2 "str ''/api/events/bad-id''"
        "\<lparr>ok = False, status = 404, json = Inr ()\<rparr>" _ _ _ _ _ _ "str ''bad-id''"] u2 d404
    by (simp add: str_def mockResolvedValue_def)
  have c: "getEpochs ?f3 = Inl (Error (str ''Epochs API error: 503''))"
    using api_methods_outcome [of ?f3 getEpochs_url
        "\<lparr>ok = False, status = 503, json = Inr ()\<rparr>"] d503
    by (simp add: str_def mockResolvedValue_def)
  have d: "getFactionStats ?f4 None None None = Inr 7"
    using api_methods_outcome [of ?f4 "str ''/api/meta/factions''"
        "\<lparr>ok = True, status = 200, json = Inr (7::nat)\<rparr>" _ _ None] u3
    by (simp add: mockResolvedValue_def)
  from a b c d show ?thesis by simp
qed


end
